theory Spec2Isabelle
  imports Main
begin

section \<open>Go values: slices, pointers, named string types\<close>

text \<open>
  A Go slice is either \<open>nil\<close> or a (possibly empty) sequence; \<open>len\<close> and \<open>range\<close> treat
  \<open>nil\<close> like the empty sequence, but \<open>== nil\<close> tells them apart. A slice is therefore a
  \<open>'a list option\<close> with \<open>None\<close> for \<open>nil\<close>. A pointer \<open>*T\<close> is a \<open>T option\<close> with
  \<open>None\<close> for the nil pointer, so \<open>*[]string\<close> is a \<open>string list option option\<close>.
  The value of an \<open>interface{}\<close> produced by the JSON decoder is \<open>'j option\<close>, \<open>None\<close>
  being the nil interface (JSON \<open>null\<close>); \<open>'j\<close> stands for the non-nil decoded values.
\<close>

type_synonym 'a slice = "'a list option"

definition len :: "'a slice \<Rightarrow> nat" where
  "len s = (case s of None \<Rightarrow> 0 | Some xs \<Rightarrow> length xs)"

definition range_slice :: "'a slice \<Rightarrow> 'a list" where
  "range_slice s = (case s of None \<Rightarrow> [] | Some xs \<Rightarrow> xs)"

definition append_slice :: "'a slice \<Rightarrow> 'a \<Rightarrow> 'a slice" where
  "append_slice s x = Some (range_slice s @ [x])"

text \<open>\<open>make([]T, 0)\<close>: a non-nil slice of length 0.\<close>

definition make0 :: "'a slice" where
  "make0 = Some []"

text \<open>A Go map value; \<open>None\<close> is the nil map.\<close>

type_synonym tagmap = "(string \<rightharpoonup> string) option"

text \<open>
  The SDK's enumerations are named string types (the schema converts their constants with
  \<open>string(...)\<close>, and the handlers convert model strings with \<open>TeamsCodecs(...)\<close>), so any
  string is a value of them. Each is a wrapper around \<open>string\<close>; the selector is the
  conversion back to \<open>string\<close>.
\<close>

datatype E911Type = E911Type (string_of_E911Type: string)
datatype TeamsCodecs = TeamsCodecs (string_of_TeamsCodecs: string)
datatype Connectivity = Connectivity (string_of_Connectivity: string)
datatype CommunicationsPlatform = CommunicationsPlatform (string_of_CommunicationsPlatform: string)
datatype AutoGeneratedDomainNameLabelScope =
  AutoGeneratedDomainNameLabelScope (string_of_AutoGeneratedDomainNameLabelScope: string)

text \<open>
  Modelled from the spec: the two constants of the SDK's \<open>E911Type\<close> are declared outside
  the source file; the spec and the handler's messages name them "Standard" and
  "DirectToEsrp".
\<close>

definition E911TypeStandard :: E911Type where
  "E911TypeStandard = E911Type ''Standard''"

definition E911TypeDirectToEsrp :: E911Type where
  "E911TypeDirectToEsrp = E911Type ''DirectToEsrp''"

section \<open>The flat model\<close>

record ServiceRegionPropertiesModel =
  sl_Location :: string
  sl_OperatorAddresses :: "string slice"
  sl_AllowedMediaSourceAddressPrefixes :: "string slice"
  sl_AllowedSignalingSourceAddressPrefixes :: "string slice"
  sl_EsrpAddresses :: "string slice"

record CommunicationsGatewayModel =
  m_Name :: string
  m_ResourceGroupName :: string
  m_ApiBridge :: string
  m_AutoGeneratedDomainNameLabelScope :: AutoGeneratedDomainNameLabelScope
  m_Codecs :: string
  m_Connectivity :: string
  m_E911Type :: E911Type
  m_EmergencyDialStrings :: "string slice"
  m_Location :: string
  m_OnPremMcpEnabled :: bool
  m_Platforms :: "string slice"
  m_ServiceLocation :: "ServiceRegionPropertiesModel slice"
  m_Tags :: tagmap
  m_MicrosoftTeamsVoicemailPilotNumber :: string

section \<open>The remote shape\<close>

text \<open>
  The SDK structs, with the fields the handlers read or write and the pointer-ness the
  handlers' \<open>&\<close>, \<open>*\<close> and nil tests show.
\<close>

record PrimaryRegionProperties =
  pr_AllowedMediaSourceAddressPrefixes :: "string slice option"
  pr_AllowedSignalingSourceAddressPrefixes :: "string slice option"
  pr_EsrpAddresses :: "string slice option"
  pr_OperatorAddresses :: "string slice"

record ServiceRegionProperties =
  sr_Name :: string
  sr_PrimaryRegionProperties :: PrimaryRegionProperties

record 'j CommunicationsGatewayProperties =
  p_ApiBridge :: "'j option option"
  p_AutoGeneratedDomainNameLabelScope :: "AutoGeneratedDomainNameLabelScope option"
  p_Codecs :: "TeamsCodecs slice"
  p_Connectivity :: Connectivity
  p_E911Type :: E911Type
  p_EmergencyDialStrings :: "string slice option"
  p_OnPremMcpEnabled :: "bool option"
  p_Platforms :: "CommunicationsPlatform slice"
  p_ServiceLocations :: "ServiceRegionProperties slice"
  p_TeamsVoicemailPilotNumber :: "string option"

record 'j CommunicationsGateway =
  gw_Location :: string
  gw_Properties :: "'j CommunicationsGatewayProperties option"
  gw_Tags :: "tagmap option"

record CommunicationsGatewayId =
  id_SubscriptionId :: string
  id_ResourceGroupName :: string
  id_CommunicationsGatewayName :: string

definition NewCommunicationsGatewayID :: "string \<Rightarrow> string \<Rightarrow> string \<Rightarrow> CommunicationsGatewayId" where
  "NewCommunicationsGatewayID subscriptionId resourceGroupName communicationsGatewayName =
     \<lparr>id_SubscriptionId = subscriptionId, id_ResourceGroupName = resourceGroupName,
      id_CommunicationsGatewayName = communicationsGatewayName\<rparr>"

section \<open>External collaborators\<close>

text \<open>
  Library functions the handlers call and that are no part of this repository are
  parameters: the location normaliser, the JSON decoder into an \<open>interface{}\<close> and encoder
  (\<open>Inl\<close> is the error), and the parser of the composite resource ID.
\<close>

record 'j env =
  Normalize :: "string \<Rightarrow> string"
  Unmarshal :: "string \<Rightarrow> string + 'j option"
  Marshal :: "'j \<Rightarrow> string + string"
  ParseCommunicationsGatewayID :: "string \<Rightarrow> string + CommunicationsGatewayId"

text \<open>
  Modelled from the spec: \<open>utils.StringSlice\<close> (package \<open>utils\<close> of this repository, not
  among the source files). The spec: "an empty input slice must become a genuine empty
  collection, but a slice that was never populated must become a nil pointer".
\<close>

definition StringSlice :: "string slice \<Rightarrow> string slice option" where
  "StringSlice input = (if input = None then None else Some input)"

section \<open>Translator\<close>

definition expandServiceRegionPropertiesModel ::
  "'j env \<Rightarrow> ServiceRegionPropertiesModel slice \<Rightarrow> ServiceRegionProperties slice" where
  "expandServiceRegionPropertiesModel env inputList =
     foldl (\<lambda>outputList v.
        append_slice outputList
          \<lparr>sr_Name = Normalize env (sl_Location v),
           sr_PrimaryRegionProperties =
             \<lparr>pr_AllowedMediaSourceAddressPrefixes = StringSlice (sl_AllowedMediaSourceAddressPrefixes v),
              pr_AllowedSignalingSourceAddressPrefixes = StringSlice (sl_AllowedSignalingSourceAddressPrefixes v),
              pr_EsrpAddresses = StringSlice (sl_EsrpAddresses v),
              pr_OperatorAddresses = sl_OperatorAddresses v\<rparr>\<rparr>)
       make0 (range_slice inputList)"

definition expandCommunicationsPlatformModel :: "string slice \<Rightarrow> CommunicationsPlatform slice" where
  "expandCommunicationsPlatformModel input =
     (if len input = 0 then None
      else foldl (\<lambda>output v. append_slice output (CommunicationsPlatform v)) None (range_slice input))"

definition flattenServiceRegionPropertiesModel ::
  "'j env \<Rightarrow> ServiceRegionProperties slice option \<Rightarrow> ServiceRegionPropertiesModel slice" where
  "flattenServiceRegionPropertiesModel env inputList =
     (case inputList of
        None \<Rightarrow> make0
      | Some inputs \<Rightarrow>
          foldl (\<lambda>outputList input.
             let v = sr_PrimaryRegionProperties input in
             append_slice outputList
               \<lparr>sl_Location = Normalize env (sr_Name input),
                sl_OperatorAddresses =
                  (if pr_OperatorAddresses v \<noteq> None then pr_OperatorAddresses v else None),
                sl_AllowedMediaSourceAddressPrefixes =
                  (case pr_AllowedMediaSourceAddressPrefixes v of Some s \<Rightarrow> s | None \<Rightarrow> None),
                sl_AllowedSignalingSourceAddressPrefixes =
                  (case pr_AllowedSignalingSourceAddressPrefixes v of Some s \<Rightarrow> s | None \<Rightarrow> None),
                sl_EsrpAddresses =
                  (case pr_EsrpAddresses v of Some s \<Rightarrow> s | None \<Rightarrow> None)\<rparr>)
            make0 (range_slice inputs))"

definition flattenCommunicationsPlatformModel :: "CommunicationsPlatform slice \<Rightarrow> string slice" where
  "flattenCommunicationsPlatformModel input =
     (if len input = 0 then None
      else foldl (\<lambda>output v. append_slice output (string_of_CommunicationsPlatform v)) make0 (range_slice input))"

section \<open>Host and remote boundary\<close>

text \<open>
  The remote client is an injected collaborator: each of its operations is a function of
  the request. What a handler does to the outside (remote calls, in order, and what it
  records with the host) is the list of effects it returns next to its error value.
  \<open>response.WasNotFound\<close> of the helper library holds of a non-nil HTTP response with
  status 404.
\<close>

record http_Response =
  StatusCode :: int

definition WasNotFound :: "http_Response option \<Rightarrow> bool" where
  "WasNotFound resp = (case resp of None \<Rightarrow> False | Some r \<Rightarrow> StatusCode r = 404)"

record 'j GetOperationResponse =
  HttpResponse :: "http_Response option"
  Model :: "'j CommunicationsGateway option"

record 'j CommunicationsGatewaysClient =
  Get :: "CommunicationsGatewayId \<Rightarrow> 'j GetOperationResponse \<times> string option"
  CreateOrUpdateThenPoll :: "CommunicationsGatewayId \<Rightarrow> 'j CommunicationsGateway \<Rightarrow> string option"
  DeleteThenPoll :: "CommunicationsGatewayId \<Rightarrow> string option"

text \<open>
  What the host supplies to a handler: the decoded configuration (\<open>Inl\<close> when decoding
  fails), the tracked resource ID, the per-field diff, the subscription, and the encoder of
  the state (its error, if any).
\<close>

record ResourceMetaData =
  Decode :: "string + CommunicationsGatewayModel"
  DecodeDiff :: "string + CommunicationsGatewayModel"
  ResourceData_Id :: string
  HasChange :: "string \<Rightarrow> bool"
  SubscriptionId :: string
  Encode :: "CommunicationsGatewayModel \<Rightarrow> string option"

text \<open>
  One constructor per error the handlers build, carrying what the message is formatted
  from; \<open>NilPointerDereference\<close> is the run-time panic of a field access through a nil
  pointer.
\<close>

datatype error =
    DecodeDiffError string
  | DecodingError string
  | EsrpMustNotBeProvided string
  | EsrpMustBeProvided string
  | CheckingForPresenceError CommunicationsGatewayId string
  | ImportAsExistsError string CommunicationsGatewayId
  | UnmarshallingValueError string
  | UnmarshallingJsonValueError string
  | MarshallingValueError string
  | CreatingError CommunicationsGatewayId string
  | ParseIdError string
  | RetrievingError CommunicationsGatewayId string
  | ModelWasNilError CommunicationsGatewayId
  | UpdatingError CommunicationsGatewayId string
  | DeletingError CommunicationsGatewayId string
  | EncodeError string
  | NilPointerDereference

datatype 'j effect =
    GetCall CommunicationsGatewayId
  | CreateOrUpdateCall CommunicationsGatewayId "'j CommunicationsGateway"
  | DeleteCall CommunicationsGatewayId
  | SetID CommunicationsGatewayId
  | MarkedAsGone CommunicationsGatewayId
  | EncodeCall CommunicationsGatewayModel

type_synonym 'j outcome = "error option \<times> 'j effect list"

fun mutating :: "'j effect \<Rightarrow> bool" where
  "mutating (CreateOrUpdateCall i r) = True"
| "mutating (DeleteCall i) = True"
| "mutating e = False"

definition ResourceType :: string where
  "ResourceType = ''azurerm_voice_services_communications_gateway''"

text \<open>
  Modelled from the spec: \<open>ResourceMetaData.ResourceRequiresImport\<close> (package
  \<open>internal/sdk\<close> of this repository, not among the source files). The spec: the conflict
  is "surfaced as an "import required" signal distinct from a generic error".
\<close>

definition ResourceRequiresImport :: "string \<Rightarrow> CommunicationsGatewayId \<Rightarrow> error option" where
  "ResourceRequiresImport resourceName gid = Some (ImportAsExistsError resourceName gid)"

text \<open>
  Modelled from the spec: \<open>ResourceMetaData.MarkAsGone\<close> (package \<open>internal/sdk\<close> of this
  repository, not among the source files). The spec: Read "treats remote-not-found as a
  terminal "resource gone" signal (marks the locally tracked instance absent) rather than
  an error".
\<close>

definition MarkAsGone :: "CommunicationsGatewayId \<Rightarrow> 'j outcome" where
  "MarkAsGone gid = (None, [MarkedAsGone gid])"

definition andThen :: "error + 'a \<Rightarrow> ('a \<Rightarrow> error + 'b) \<Rightarrow> error + 'b" where
  "andThen r f = (case r of Inl e \<Rightarrow> Inl e | Inr a \<Rightarrow> f a)"

section \<open>Reconciler\<close>

subsection \<open>CustomizeDiff\<close>

fun CustomizeDiff_loop :: "CommunicationsGatewayModel \<Rightarrow> ServiceRegionPropertiesModel list \<Rightarrow> error option" where
  "CustomizeDiff_loop model [] = None"
| "CustomizeDiff_loop model (sls # rest) =
     (if m_E911Type model = E911TypeStandard then
        (if len (sl_EsrpAddresses sls) > 0 then Some (EsrpMustNotBeProvided (m_Name model))
         else CustomizeDiff_loop model rest)
      else
        (if len (sl_EsrpAddresses sls) = 0 then Some (EsrpMustBeProvided (m_Name model))
         else CustomizeDiff_loop model rest))"

definition CustomizeDiff :: "ResourceMetaData \<Rightarrow> error option" where
  "CustomizeDiff metadata =
     (case DecodeDiff metadata of
        Inl err \<Rightarrow> Some (DecodeDiffError err)
      | Inr model \<Rightarrow> CustomizeDiff_loop model (range_slice (m_ServiceLocation model)))"

subsection \<open>Create\<close>

text \<open>
  \<open>Create_properties\<close> is the part of Create between the existence probe and the remote
  call: the resource literal, the decoding of the api bridge, and the assignments that
  follow it.
\<close>

definition Create_properties :: "'j env \<Rightarrow> CommunicationsGatewayModel \<Rightarrow> error + 'j CommunicationsGateway" where
  "Create_properties env model =
     (let p0 = \<lparr>p_ApiBridge = None,
                p_AutoGeneratedDomainNameLabelScope = Some (m_AutoGeneratedDomainNameLabelScope model),
                p_Codecs = Some [TeamsCodecs (m_Codecs model)],
                p_Connectivity = Connectivity (m_Connectivity model),
                p_E911Type = m_E911Type model,
                p_EmergencyDialStrings = None,
                p_OnPremMcpEnabled = None,
                p_Platforms = expandCommunicationsPlatformModel (m_Platforms model),
                p_ServiceLocations = expandServiceRegionPropertiesModel env (m_ServiceLocation model),
                p_TeamsVoicemailPilotNumber = None\<rparr>
      in case (if m_ApiBridge model \<noteq> [] then Unmarshal env (m_ApiBridge model) else Inr None) of
           Inl err \<Rightarrow> Inl (UnmarshallingValueError err)
         | Inr apiBridgeValue \<Rightarrow>
             (let p1 = p0\<lparr>p_ApiBridge := Some apiBridgeValue\<rparr>;
                  p2 = (if m_EmergencyDialStrings model \<noteq> None
                        then p1\<lparr>p_EmergencyDialStrings := Some (m_EmergencyDialStrings model)\<rparr>
                        else p1);
                  p3 = p2\<lparr>p_OnPremMcpEnabled := Some (m_OnPremMcpEnabled model)\<rparr>;
                  p4 = p3\<lparr>p_TeamsVoicemailPilotNumber := Some (m_MicrosoftTeamsVoicemailPilotNumber model)\<rparr>
              in Inr \<lparr>gw_Location = Normalize env (m_Location model),
                      gw_Properties = Some p4,
                      gw_Tags = Some (m_Tags model)\<rparr>))"

definition Create :: "'j env \<Rightarrow> 'j CommunicationsGatewaysClient \<Rightarrow> ResourceMetaData \<Rightarrow> 'j outcome" where
  "Create env client metadata =
     (case Decode metadata of
        Inl err \<Rightarrow> (Some (DecodingError err), [])
      | Inr model \<Rightarrow>
     (let gid = NewCommunicationsGatewayID (SubscriptionId metadata) (m_ResourceGroupName model) (m_Name model)
      in case Get client gid of (existing, err) \<Rightarrow>
         if err \<noteq> None \<and> \<not> WasNotFound (HttpResponse existing)
         then (Some (CheckingForPresenceError gid (case err of Some e \<Rightarrow> e | None \<Rightarrow> [])), [GetCall gid])
         else if \<not> WasNotFound (HttpResponse existing)
         then (ResourceRequiresImport ResourceType gid, [GetCall gid])
         else
     (case Create_properties env model of
        Inl e \<Rightarrow> (Some e, [GetCall gid])
      | Inr properties \<Rightarrow>
     (case CreateOrUpdateThenPoll client gid properties of
        Some err \<Rightarrow> (Some (CreatingError gid err), [GetCall gid, CreateOrUpdateCall gid properties])
      | None \<Rightarrow> (None, [GetCall gid, CreateOrUpdateCall gid properties, SetID gid])))))"

subsection \<open>Update\<close>

text \<open>
  An assignment \<open>properties.Properties.X = v\<close> goes through the pointer
  \<open>properties.Properties\<close>, which Update does not test: through a nil pointer it panics.
\<close>

definition with_Properties ::
  "'j CommunicationsGateway \<Rightarrow> ('j CommunicationsGatewayProperties \<Rightarrow> 'j CommunicationsGatewayProperties)
   \<Rightarrow> error + 'j CommunicationsGateway" where
  "with_Properties properties f =
     (case gw_Properties properties of
        None \<Rightarrow> Inl NilPointerDereference
      | Some p \<Rightarrow> Inr (properties\<lparr>gw_Properties := Some (f p)\<rparr>))"

text \<open>
  \<open>Update_properties\<close> is the part of Update between the fetch and the remote call: one
  guarded assignment per mutable field, in the order of the source.
\<close>

definition Update_properties ::
  "'j env \<Rightarrow> (string \<Rightarrow> bool) \<Rightarrow> CommunicationsGatewayModel \<Rightarrow> 'j CommunicationsGateway
   \<Rightarrow> error + 'j CommunicationsGateway" where
  "Update_properties env hasChange model properties0 =
     andThen (if hasChange ''codecs''
              then with_Properties properties0 (\<lambda>p. p\<lparr>p_Codecs := Some [TeamsCodecs (m_Codecs model)]\<rparr>)
              else Inr properties0) (\<lambda>properties.
     andThen (if hasChange ''e911_type''
              then with_Properties properties (\<lambda>p. p\<lparr>p_E911Type := m_E911Type model\<rparr>)
              else Inr properties) (\<lambda>properties.
     andThen (if hasChange ''platforms''
              then with_Properties properties
                     (\<lambda>p. p\<lparr>p_Platforms := expandCommunicationsPlatformModel (m_Platforms model)\<rparr>)
              else Inr properties) (\<lambda>properties.
     andThen (if hasChange ''service_location''
              then with_Properties properties
                     (\<lambda>p. p\<lparr>p_ServiceLocations := expandServiceRegionPropertiesModel env (m_ServiceLocation model)\<rparr>)
              else Inr properties) (\<lambda>properties.
     andThen (if hasChange ''api_bridge''
              then (if m_ApiBridge model \<noteq> []
                    then (case Unmarshal env (m_ApiBridge model) of
                            Inl err \<Rightarrow> Inl (UnmarshallingJsonValueError err)
                          | Inr apiBridgeValue \<Rightarrow>
                              with_Properties properties (\<lambda>p. p\<lparr>p_ApiBridge := Some apiBridgeValue\<rparr>))
                    else with_Properties properties (\<lambda>p. p\<lparr>p_ApiBridge := None\<rparr>))
              else Inr properties) (\<lambda>properties.
     andThen (if hasChange ''emergency_dial_strings''
              then with_Properties properties
                     (\<lambda>p. p\<lparr>p_EmergencyDialStrings := Some (m_EmergencyDialStrings model)\<rparr>)
              else Inr properties) (\<lambda>properties.
     andThen (if hasChange ''on_prem_mcp_enabled''
              then with_Properties properties
                     (\<lambda>p. p\<lparr>p_OnPremMcpEnabled := Some (m_OnPremMcpEnabled model)\<rparr>)
              else Inr properties) (\<lambda>properties.
     andThen (if hasChange ''tags''
              then Inr (properties\<lparr>gw_Tags := Some (m_Tags model)\<rparr>)
              else Inr properties) (\<lambda>properties.
     (if hasChange ''microsoft_teams_voicemail_pilot_number''
      then with_Properties properties
             (\<lambda>p. p\<lparr>p_TeamsVoicemailPilotNumber := Some (m_MicrosoftTeamsVoicemailPilotNumber model)\<rparr>)
      else Inr properties)))))))))"

definition Update :: "'j env \<Rightarrow> 'j CommunicationsGatewaysClient \<Rightarrow> ResourceMetaData \<Rightarrow> 'j outcome" where
  "Update env client metadata =
     (case ParseCommunicationsGatewayID env (ResourceData_Id metadata) of
        Inl err \<Rightarrow> (Some (ParseIdError err), [])
      | Inr gid \<Rightarrow>
     (case Decode metadata of
        Inl err \<Rightarrow> (Some (DecodingError err), [])
      | Inr model \<Rightarrow>
     (case Get client gid of
        (resp, Some err) \<Rightarrow> (Some (RetrievingError gid err), [GetCall gid])
      | (resp, None) \<Rightarrow>
     (case Model resp of
        None \<Rightarrow> (Some (ModelWasNilError gid), [GetCall gid])
      | Some fetched \<Rightarrow>
     (case Update_properties env (HasChange metadata) model fetched of
        Inl e \<Rightarrow> (Some e, [GetCall gid])
      | Inr properties \<Rightarrow>
     (case CreateOrUpdateThenPoll client gid properties of
        Some err \<Rightarrow> (Some (UpdatingError gid err), [GetCall gid, CreateOrUpdateCall gid properties])
      | None \<Rightarrow> (None, [GetCall gid, CreateOrUpdateCall gid properties])))))))"

subsection \<open>Read\<close>

text \<open>
  \<open>Read_state\<close> is the part of Read that builds the model from the fetched resource;
  fields it does not assign keep Go's zero value.
\<close>

definition Read_state ::
  "'j env \<Rightarrow> CommunicationsGatewayId \<Rightarrow> 'j CommunicationsGateway \<Rightarrow> error + CommunicationsGatewayModel" where
  "Read_state env gid model =
     (let state0 =
        \<lparr>m_Name = id_CommunicationsGatewayName gid,
         m_ResourceGroupName = id_ResourceGroupName gid,
         m_ApiBridge = [],
         m_AutoGeneratedDomainNameLabelScope = AutoGeneratedDomainNameLabelScope [],
         m_Codecs = [],
         m_Connectivity = [],
         m_E911Type = E911Type [],
         m_EmergencyDialStrings = None,
         m_Location = Normalize env (gw_Location model),
         m_OnPremMcpEnabled = False,
         m_Platforms = None,
         m_ServiceLocation = None,
         m_Tags = None,
         m_MicrosoftTeamsVoicemailPilotNumber = []\<rparr>
      in
      andThen
        (case gw_Properties model of
           None \<Rightarrow> Inr state0
         | Some properties \<Rightarrow>
            (let state1 = state0
                   \<lparr>m_Connectivity := string_of_Connectivity (p_Connectivity properties),
                    m_Codecs := (if p_Codecs properties \<noteq> None \<and> len (p_Codecs properties) > 0
                                 then string_of_TeamsCodecs (hd (range_slice (p_Codecs properties)))
                                 else []),
                    m_E911Type := p_E911Type properties,
                    m_Platforms := flattenCommunicationsPlatformModel (p_Platforms properties),
                    m_ServiceLocation :=
                      flattenServiceRegionPropertiesModel env (Some (p_ServiceLocations properties))\<rparr>;
                 state2 = (case p_AutoGeneratedDomainNameLabelScope properties of
                             Some scope \<Rightarrow> state1\<lparr>m_AutoGeneratedDomainNameLabelScope := scope\<rparr>
                           | None \<Rightarrow> state1)
             in
             andThen
               (case p_ApiBridge properties of
                  Some (Some v) \<Rightarrow>
                    (case Marshal env v of
                       Inl err \<Rightarrow> Inl (MarshallingValueError err)
                     | Inr apiBridgeValue \<Rightarrow> Inr (state2\<lparr>m_ApiBridge := apiBridgeValue\<rparr>))
                | _ \<Rightarrow> Inr state2)
               (\<lambda>state3.
                  (let state4 = (case p_EmergencyDialStrings properties of
                                   Some s \<Rightarrow> state3\<lparr>m_EmergencyDialStrings := s\<rparr>
                                 | None \<Rightarrow> state3);
                       state5 = state4\<lparr>m_OnPremMcpEnabled :=
                                  (case p_OnPremMcpEnabled properties of Some b \<Rightarrow> b | None \<Rightarrow> False)\<rparr>;
                       state6 = state5\<lparr>m_MicrosoftTeamsVoicemailPilotNumber :=
                                  (case p_TeamsVoicemailPilotNumber properties of Some v \<Rightarrow> v | None \<Rightarrow> [])\<rparr>
                   in Inr state6))))
        (\<lambda>state. Inr (case gw_Tags model of Some t \<Rightarrow> state\<lparr>m_Tags := t\<rparr> | None \<Rightarrow> state)))"

definition Read :: "'j env \<Rightarrow> 'j CommunicationsGatewaysClient \<Rightarrow> ResourceMetaData \<Rightarrow> 'j outcome" where
  "Read env client metadata =
     (case ParseCommunicationsGatewayID env (ResourceData_Id metadata) of
        Inl err \<Rightarrow> (Some (ParseIdError err), [])
      | Inr gid \<Rightarrow>
     (case Get client gid of
        (resp, Some err) \<Rightarrow>
          (if WasNotFound (HttpResponse resp)
           then (case MarkAsGone gid of (r, effects) \<Rightarrow> (r, GetCall gid # effects))
           else (Some (RetrievingError gid err), [GetCall gid]))
      | (resp, None) \<Rightarrow>
     (case Model resp of
        None \<Rightarrow> (Some (ModelWasNilError gid), [GetCall gid])
      | Some model \<Rightarrow>
     (case Read_state env gid model of
        Inl e \<Rightarrow> (Some e, [GetCall gid])
      | Inr state \<Rightarrow>
          (map_option EncodeError (Encode metadata state), [GetCall gid, EncodeCall state])))))"

subsection \<open>Delete\<close>

definition Delete :: "'j env \<Rightarrow> 'j CommunicationsGatewaysClient \<Rightarrow> ResourceMetaData \<Rightarrow> 'j outcome" where
  "Delete env client metadata =
     (case ParseCommunicationsGatewayID env (ResourceData_Id metadata) of
        Inl err \<Rightarrow> (Some (ParseIdError err), [])
      | Inr gid \<Rightarrow>
     (case DeleteThenPoll client gid of
        Some err \<Rightarrow> (Some (DeletingError gid err), [DeleteCall gid])
      | None \<Rightarrow> (None, [DeleteCall gid])))"

section \<open>Notions used in the properties\<close>

text \<open>
  The ESRP rule as the spec words it, for one service-location entry: a violation is a
  non-empty ESRP list under "Standard", or an empty one under "DirectToEsrp".
\<close>

definition spec_esrp_violation :: "E911Type \<Rightarrow> ServiceRegionPropertiesModel \<Rightarrow> bool" where
  "spec_esrp_violation e911 sls =
     ((e911 = E911TypeStandard \<and> len (sl_EsrpAddresses sls) \<noteq> 0) \<or>
      (e911 = E911TypeDirectToEsrp \<and> len (sl_EsrpAddresses sls) = 0))"

text \<open>What the handler itself tests on one entry.\<close>

definition code_esrp_violation :: "E911Type \<Rightarrow> ServiceRegionPropertiesModel \<Rightarrow> bool" where
  "code_esrp_violation e911 sls =
     ((e911 = E911TypeStandard \<and> len (sl_EsrpAddresses sls) \<noteq> 0) \<or>
      (e911 \<noteq> E911TypeStandard \<and> len (sl_EsrpAddresses sls) = 0))"

fun is_validation_error :: "error \<Rightarrow> bool" where
  "is_validation_error (EsrpMustNotBeProvided n) = True"
| "is_validation_error (EsrpMustBeProvided n) = True"
| "is_validation_error e = False"


text \<open>
  A handler that panics returns nothing to its caller; of the error values of the model
  only \<open>NilPointerDereference\<close> stands for a panic, every other one is an error the
  handler returns.
\<close>

fun is_panic :: "error \<Rightarrow> bool" where
  "is_panic NilPointerDereference = True"
| "is_panic e = False"

text \<open>The probe found the identity: no error, and the response is not a 404.\<close>

definition found :: "'j GetOperationResponse \<times> string option \<Rightarrow> bool" where
  "found r = (snd r = None \<and> \<not> WasNotFound (HttpResponse (fst r)))"

text \<open>The probe failed with not-found: an error, and the response is a 404.\<close>

definition not_found :: "'j GetOperationResponse \<times> string option \<Rightarrow> bool" where
  "not_found r = (snd r \<noteq> None \<and> WasNotFound (HttpResponse (fst r)))"

section \<open>Example inputs\<close>

text \<open>
  The end-to-end example of the spec. In the example environment a decoded JSON value is
  represented by its canonical text; the location strings used are ones the normaliser
  leaves unchanged (lower case, no blank).
\<close>

definition example_id :: CommunicationsGatewayId where
  "example_id = NewCommunicationsGatewayID ''sub'' ''rg'' ''abc''"

definition example_env :: "string env" where
  "example_env =
     \<lparr>Normalize = (\<lambda>s. s),
      Unmarshal = (\<lambda>s. if s = ''{}'' then Inr (Some ''{}'')
                        else if s = ''null'' then Inr None
                        else Inl ''invalid character''),
      Marshal = (\<lambda>v. Inr v),
      ParseCommunicationsGatewayID = (\<lambda>s. if s = ''/sub/rg/abc'' then Inr example_id else Inl ''parsing'')\<rparr>"

definition example_location :: ServiceRegionPropertiesModel where
  "example_location =
     \<lparr>sl_Location = ''eastus'',
      sl_OperatorAddresses = Some [''10.0.0.1''],
      sl_AllowedMediaSourceAddressPrefixes = None,
      sl_AllowedSignalingSourceAddressPrefixes = Some [],
      sl_EsrpAddresses = Some []\<rparr>"


definition example_model :: CommunicationsGatewayModel where
  "example_model =
     \<lparr>m_Name = ''abc'',
      m_ResourceGroupName = ''rg'',
      m_ApiBridge = [],
      m_AutoGeneratedDomainNameLabelScope = AutoGeneratedDomainNameLabelScope ''TenantReuse'',
      m_Codecs = ''PCMA'',
      m_Connectivity = ''PublicAddress'',
      m_E911Type = E911TypeStandard,
      m_EmergencyDialStrings = None,
      m_Location = ''eastus'',
      m_OnPremMcpEnabled = False,
      m_Platforms = Some [''OperatorConnect''],
      m_ServiceLocation = Some [example_location],
      m_Tags = None,
      m_MicrosoftTeamsVoicemailPilotNumber = []\<rparr>"

definition example_properties :: "string CommunicationsGatewayProperties" where
  "example_properties =
     \<lparr>p_ApiBridge = Some (Some ''{}''),
      p_AutoGeneratedDomainNameLabelScope = Some (AutoGeneratedDomainNameLabelScope ''TenantReuse''),
      p_Codecs = Some [TeamsCodecs ''PCMU''],
      p_Connectivity = Connectivity ''PublicAddress'',
      p_E911Type = E911TypeStandard,
      p_EmergencyDialStrings = None,
      p_OnPremMcpEnabled = Some False,
      p_Platforms = Some [CommunicationsPlatform ''OperatorConnect''],
      p_ServiceLocations = Some [],
      p_TeamsVoicemailPilotNumber = Some []\<rparr>"

definition example_gateway :: "string CommunicationsGateway" where
  "example_gateway =
     \<lparr>gw_Location = ''eastus'', gw_Properties = Some example_properties, gw_Tags = Some None\<rparr>"

text \<open>A remote side on which the gateway exists, and one on which it does not.\<close>

definition example_client_present :: "string CommunicationsGatewaysClient" where
  "example_client_present =
     \<lparr>Get = (\<lambda>i. (\<lparr>HttpResponse = Some \<lparr>StatusCode = 200\<rparr>, Model = Some example_gateway\<rparr>, None)),
      CreateOrUpdateThenPoll = (\<lambda>i r. None),
      DeleteThenPoll = (\<lambda>i. None)\<rparr>"

definition example_client_absent :: "string CommunicationsGatewaysClient" where
  "example_client_absent =
     \<lparr>Get = (\<lambda>i. (\<lparr>HttpResponse = Some \<lparr>StatusCode = 404\<rparr>, Model = None\<rparr>, Some ''not found'')),
      CreateOrUpdateThenPoll = (\<lambda>i r. None),
      DeleteThenPoll = (\<lambda>i. None)\<rparr>"

definition example_client_failing :: "string CommunicationsGatewaysClient" where
  "example_client_failing =
     \<lparr>Get = (\<lambda>i. (\<lparr>HttpResponse = Some \<lparr>StatusCode = 500\<rparr>, Model = None\<rparr>, Some ''internal error'')),
      CreateOrUpdateThenPoll = (\<lambda>i r. None),
      DeleteThenPoll = (\<lambda>i. None)\<rparr>"

text \<open>The host's per-field diff, given as the list of the fields it marks changed.\<close>

definition changed_fields :: "string list \<Rightarrow> string \<Rightarrow> bool" where
  "changed_fields names k = (k \<in> set names)"

definition example_metadata :: "CommunicationsGatewayModel \<Rightarrow> (string \<Rightarrow> bool) \<Rightarrow> ResourceMetaData" where
  "example_metadata model hasChange =
     \<lparr>Decode = Inr model,
      DecodeDiff = Inr model,
      ResourceData_Id = ''/sub/rg/abc'',
      HasChange = hasChange,
      SubscriptionId = ''sub'',
      Encode = (\<lambda>state. None)\<rparr>"

section \<open>Loops as maps\<close>

lemma range_slice_simps [simp]: "range_slice None = []" "range_slice (Some xs) = xs"
  by (simp_all add: range_slice_def)

lemma len_simps [simp]: "len None = 0" "len (Some xs) = length xs"
  by (simp_all add: len_def)

lemma len_range_slice: "len s = length (range_slice s)"
  by (cases s) simp_all

lemma foldl_append_slice:
  "foldl (\<lambda>out v. append_slice out (f v)) s xs = (if xs = [] then s else Some (range_slice s @ map f xs))"
proof (induction xs arbitrary: s)
  case Nil
  show ?case by simp
next
  case (Cons x xs)
  have step: "append_slice s (f x) = Some (range_slice s @ [f x])"
    by (simp add: append_slice_def)
  show ?case by (simp add: Cons.IH step)
qed

lemma foldl_append_slice_make0:
  "foldl (\<lambda>out v. append_slice out (f v)) make0 xs = Some (map f xs)"
  by (simp add: foldl_append_slice make0_def)

lemma expandCommunicationsPlatformModel_eq:
  "expandCommunicationsPlatformModel input =
     (if len input = 0 then None else Some (map CommunicationsPlatform (range_slice input)))"
  by (cases input) (simp_all add: expandCommunicationsPlatformModel_def foldl_append_slice)

lemma flattenCommunicationsPlatformModel_eq:
  "flattenCommunicationsPlatformModel input =
     (if len input = 0 then None else Some (map string_of_CommunicationsPlatform (range_slice input)))"
  by (simp add: flattenCommunicationsPlatformModel_def foldl_append_slice_make0)

lemma expandServiceRegionPropertiesModel_eq:
  "expandServiceRegionPropertiesModel env inputList =
     Some (map (\<lambda>v. \<lparr>sr_Name = Normalize env (sl_Location v),
           sr_PrimaryRegionProperties =
             \<lparr>pr_AllowedMediaSourceAddressPrefixes = StringSlice (sl_AllowedMediaSourceAddressPrefixes v),
              pr_AllowedSignalingSourceAddressPrefixes = StringSlice (sl_AllowedSignalingSourceAddressPrefixes v),
              pr_EsrpAddresses = StringSlice (sl_EsrpAddresses v),
              pr_OperatorAddresses = sl_OperatorAddresses v\<rparr>\<rparr>) (range_slice inputList))"
  by (simp add: expandServiceRegionPropertiesModel_def foldl_append_slice_make0)


section \<open>The ESRP rule (C1)\<close>

lemma CustomizeDiff_loop_None:
  "CustomizeDiff_loop model xs = None \<longleftrightarrow>
     (\<forall>sls \<in> set xs. \<not> code_esrp_violation (m_E911Type model) sls)"
  by (induction xs) (auto simp add: code_esrp_violation_def)

lemma CustomizeDiff_loop_Some:
  "CustomizeDiff_loop model xs = Some e \<Longrightarrow> is_validation_error e"
  by (induction xs) (auto split: if_splits)

lemma code_esrp_violation_spec:
  "e911 = E911TypeStandard \<or> e911 = E911TypeDirectToEsrp \<Longrightarrow>
   code_esrp_violation e911 sls = spec_esrp_violation e911 sls"
  by (auto simp add: code_esrp_violation_def spec_esrp_violation_def
        E911TypeStandard_def E911TypeDirectToEsrp_def)

text \<open>
  Whatever \<open>e911_type\<close> holds, the handler's test on an entry decides the outcome.
\<close>

lemma CustomizeDiff_code_rule:
  assumes "DecodeDiff metadata = Inr model"
  shows "CustomizeDiff metadata \<noteq> None \<longleftrightarrow>
         (\<exists>sls \<in> set (range_slice (m_ServiceLocation model)).
             code_esrp_violation (m_E911Type model) sls)"
  using assms CustomizeDiff_loop_None [of model "range_slice (m_ServiceLocation model)"]
  by (simp add: CustomizeDiff_def)

text \<open>
  C1: for every decoded Model whose \<open>e911_type\<close> is one of the two values the schema
  admits, CustomizeDiff returns a validation error if and only if some service-location
  entry violates the ESRP rule (a non-empty ESRP list under Standard, an empty one under
  DirectToEsrp); every other combination returns no error, and no other kind of error is
  returned.
\<close>

theorem CustomizeDiff_esrp_rule:
  assumes "DecodeDiff metadata = Inr model"
      and "m_E911Type model = E911TypeStandard \<or> m_E911Type model = E911TypeDirectToEsrp"
  shows "((\<exists>e. CustomizeDiff metadata = Some e \<and> is_validation_error e) \<longleftrightarrow>
          (\<exists>sls \<in> set (range_slice (m_ServiceLocation model)).
              spec_esrp_violation (m_E911Type model) sls)) \<and>
         (CustomizeDiff metadata = None \<longleftrightarrow>
          (\<forall>sls \<in> set (range_slice (m_ServiceLocation model)).
              \<not> spec_esrp_violation (m_E911Type model) sls))"
proof -
  let ?r = "CustomizeDiff_loop model (range_slice (m_ServiceLocation model))"
  have run: "CustomizeDiff metadata = ?r"
    using assms(1) by (simp add: CustomizeDiff_def)
  have err: "(\<exists>e. ?r = Some e \<and> is_validation_error e) \<longleftrightarrow> ?r \<noteq> None"
    using CustomizeDiff_loop_Some by auto
  have none: "?r = None \<longleftrightarrow>
        (\<forall>sls \<in> set (range_slice (m_ServiceLocation model)).
            \<not> spec_esrp_violation (m_E911Type model) sls)"
    using CustomizeDiff_loop_None [of model "range_slice (m_ServiceLocation model)"]
          code_esrp_violation_spec [OF assms(2)]
    by simp
  show ?thesis
    unfolding run using err none by auto
qed

theorem CustomizeDiff_esrp_rule_witness:
  "DecodeDiff (example_metadata example_model (changed_fields [])) = Inr example_model \<and>
   m_E911Type example_model = E911TypeStandard \<and>
   \<not> spec_esrp_violation E911TypeStandard example_location \<and>
   CustomizeDiff (example_metadata example_model (changed_fields [])) = None \<and>
   DecodeDiff (example_metadata (example_model\<lparr>m_E911Type := E911TypeDirectToEsrp\<rparr>) (changed_fields []))
     = Inr (example_model\<lparr>m_E911Type := E911TypeDirectToEsrp\<rparr>) \<and>
   spec_esrp_violation E911TypeDirectToEsrp example_location \<and>
   CustomizeDiff (example_metadata (example_model\<lparr>m_E911Type := E911TypeDirectToEsrp\<rparr>) (changed_fields []))
     \<noteq> None"
proof -
  let ?md = "example_metadata example_model (changed_fields [])"
  let ?m' = "example_model\<lparr>m_E911Type := E911TypeDirectToEsrp\<rparr>"
  let ?md' = "example_metadata ?m' (changed_fields [])"
  have h: "DecodeDiff ?md = Inr example_model"
    by (simp add: example_metadata_def)
  have e: "m_E911Type example_model = E911TypeStandard"
    and l: "range_slice (m_ServiceLocation example_model) = [example_location]"
    by (simp_all add: example_model_def)
  have n: "\<not> spec_esrp_violation E911TypeStandard example_location"
    by (simp add: spec_esrp_violation_def example_location_def
          E911TypeStandard_def E911TypeDirectToEsrp_def)
  have h': "DecodeDiff ?md' = Inr ?m'"
    by (simp add: example_metadata_def)
  have e': "m_E911Type ?m' = E911TypeDirectToEsrp"
    and l': "range_slice (m_ServiceLocation ?m') = [example_location]"
    by (simp_all add: example_model_def)
  have v: "spec_esrp_violation E911TypeDirectToEsrp example_location"
    by (simp add: spec_esrp_violation_def example_location_def)
  from CustomizeDiff_esrp_rule [OF h] e l n have pass: "CustomizeDiff ?md = None"
    by simp
  from CustomizeDiff_esrp_rule [OF h'] e' l' v have fail: "CustomizeDiff ?md' \<noteq> None"
    by simp
  from h e n pass h' v fail show ?thesis by simp
qed

section \<open>Partial update (C2)\<close>

lemma changed_fields_codecs: "changed_fields [''codecs''] = (\<lambda>k. k = ''codecs'')"
  by (simp add: fun_eq_iff changed_fields_def)

lemma with_Properties_Some:
  "gw_Properties g = Some p \<Longrightarrow> with_Properties g f = Inr (g\<lparr>gw_Properties := Some (f p)\<rparr>)"
  by (simp add: with_Properties_def)

lemma Update_properties_only_codecs:
  "Update_properties env (\<lambda>k. k = ''codecs'') model fetched =
     with_Properties fetched (\<lambda>p. p\<lparr>p_Codecs := Some [TeamsCodecs (m_Codecs model)]\<rparr>)"
  by (simp add: Update_properties_def andThen_def split: sum.splits)

lemma Update_sent:
  assumes "CreateOrUpdateCall gid sent \<in> set (snd (Update env client metadata))"
  shows "\<exists>resp fetched model.
           ParseCommunicationsGatewayID env (ResourceData_Id metadata) = Inr gid \<and>
           Decode metadata = Inr model \<and> Get client gid = (resp, None) \<and> Model resp = Some fetched \<and>
           Update_properties env (HasChange metadata) model fetched = Inr sent"
  using assms
  by (auto simp add: Update_def split: sum.splits prod.splits option.splits)

text \<open>
  When only \<open>codecs\<close> is marked changed and the fetched resource has its properties, Update
  does reach the remote call, with the fetched resource in which Codecs alone is replaced.
\<close>

lemma Update_only_codecs_sends:
  assumes "HasChange metadata = (\<lambda>k. k = ''codecs'')"
      and "ParseCommunicationsGatewayID env (ResourceData_Id metadata) = Inr gid"
      and "Decode metadata = Inr model"
      and "Get client gid = (resp, None)" and "Model resp = Some fetched"
      and "gw_Properties fetched = Some p"
  shows "snd (Update env client metadata) =
           [GetCall gid,
            CreateOrUpdateCall gid
              (fetched\<lparr>gw_Properties := Some (p\<lparr>p_Codecs := Some [TeamsCodecs (m_Codecs model)]\<rparr>)\<rparr>)]"
  using assms
  by (simp add: Update_def Update_properties_only_codecs with_Properties_Some split: option.splits)

text \<open>
  C2: when the changed-field set is exactly \<open>codecs\<close>, a resource that Update sends to
  CreateOrUpdate is the resource that Update fetched with the Codecs of its properties
  replaced by the singleton of the model's codec; location, tags and every other property
  are those of the fetched resource.
\<close>

theorem Update_only_codecs:
  assumes "HasChange metadata = (\<lambda>k. k = ''codecs'')"
      and "CreateOrUpdateCall gid sent \<in> set (snd (Update env client metadata))"
  shows "\<exists>resp fetched p model.
           Get client gid = (resp, None) \<and> Model resp = Some fetched \<and>
           gw_Properties fetched = Some p \<and> Decode metadata = Inr model \<and>
           sent = fetched\<lparr>gw_Properties := Some (p\<lparr>p_Codecs := Some [TeamsCodecs (m_Codecs model)]\<rparr>)\<rparr> \<and>
           gw_Location sent = gw_Location fetched \<and>
           gw_Tags sent = gw_Tags fetched \<and>
           (\<exists>p'. gw_Properties sent = Some p' \<and>
              p_E911Type p' = p_E911Type p \<and>
              p_Platforms p' = p_Platforms p \<and>
              p_ServiceLocations p' = p_ServiceLocations p \<and>
              p_ApiBridge p' = p_ApiBridge p \<and>
              p_EmergencyDialStrings p' = p_EmergencyDialStrings p \<and>
              p_OnPremMcpEnabled p' = p_OnPremMcpEnabled p \<and>
              p_TeamsVoicemailPilotNumber p' = p_TeamsVoicemailPilotNumber p \<and>
              p_Connectivity p' = p_Connectivity p \<and>
              p_AutoGeneratedDomainNameLabelScope p' = p_AutoGeneratedDomainNameLabelScope p)"
proof -
  from Update_sent [OF assms(2)] obtain resp fetched model where
    g: "Get client gid = (resp, None)" and m: "Model resp = Some fetched" and
    d: "Decode metadata = Inr model" and
    u: "Update_properties env (HasChange metadata) model fetched = Inr sent"
    by blast
  from u have w: "with_Properties fetched (\<lambda>p. p\<lparr>p_Codecs := Some [TeamsCodecs (m_Codecs model)]\<rparr>) = Inr sent"
    by (simp add: assms(1) Update_properties_only_codecs)
  then obtain p where p: "gw_Properties fetched = Some p"
    by (cases "gw_Properties fetched") (simp_all add: with_Properties_def)
  from w p have s: "sent = fetched\<lparr>gw_Properties := Some (p\<lparr>p_Codecs := Some [TeamsCodecs (m_Codecs model)]\<rparr>)\<rparr>"
    by (simp add: with_Properties_def)
  show ?thesis
    using g m d p s by simp
qed

theorem Update_only_codecs_witness:
  "HasChange (example_metadata example_model (\<lambda>k. k = ''codecs'')) = (\<lambda>k. k = ''codecs'') \<and>
   CreateOrUpdateCall example_id
       (example_gateway\<lparr>gw_Properties := Some (example_properties\<lparr>p_Codecs := Some [TeamsCodecs ''PCMA'']\<rparr>)\<rparr>)
     \<in> set (snd (Update example_env example_client_present (example_metadata example_model (\<lambda>k. k = ''codecs'')))) \<and>
   (\<exists>resp fetched p.
      Get example_client_present example_id = (resp, None) \<and> Model resp = Some fetched \<and>
      gw_Properties fetched = Some p \<and>
      p_E911Type example_properties = p_E911Type p \<and> gw_Tags example_gateway = gw_Tags fetched)"
proof -
  let ?md = "example_metadata example_model (\<lambda>k. k = ''codecs'')"
  let ?sent = "example_gateway\<lparr>gw_Properties := Some (example_properties\<lparr>p_Codecs := Some [TeamsCodecs ''PCMA'']\<rparr>)\<rparr>"
  have h1: "HasChange ?md = (\<lambda>k. k = ''codecs'')"
    by (simp add: example_metadata_def)
  have h2: "CreateOrUpdateCall example_id ?sent \<in> set (snd (Update example_env example_client_present ?md))"
    by (simp add: Update_def example_env_def example_metadata_def example_client_present_def
          Update_properties_only_codecs with_Properties_def example_gateway_def example_model_def)
  from Update_only_codecs [OF h1 h2] h1 h2 show ?thesis
    by (auto simp add: example_gateway_def)
qed

section \<open>Create conflict (C3)\<close>

lemma Create_trace_cases:
  assumes "Decode metadata = Inr model"
  shows "snd (Create env client metadata) =
           [GetCall (NewCommunicationsGatewayID (SubscriptionId metadata) (m_ResourceGroupName model) (m_Name model))] \<or>
         (\<exists>r rest. snd (Create env client metadata) =
            GetCall (NewCommunicationsGatewayID (SubscriptionId metadata) (m_ResourceGroupName model) (m_Name model)) #
            CreateOrUpdateCall (NewCommunicationsGatewayID (SubscriptionId metadata) (m_ResourceGroupName model) (m_Name model)) r # rest \<and>
            Create_properties env model = Inr r \<and>
            (rest = [] \<or> rest = [SetID (NewCommunicationsGatewayID (SubscriptionId metadata) (m_ResourceGroupName model) (m_Name model))]) \<and>
            WasNotFound (HttpResponse (fst (Get client (NewCommunicationsGatewayID (SubscriptionId metadata) (m_ResourceGroupName model) (m_Name model))))))"
  using assms
  by (auto simp add: Create_def Let_def split: prod.splits sum.splits option.splits)

lemma Create_GetCall_id:
  assumes "GetCall gid \<in> set (snd (Create env client metadata))"
  shows "\<exists>model. Decode metadata = Inr model \<and>
           gid = NewCommunicationsGatewayID (SubscriptionId metadata) (m_ResourceGroupName model) (m_Name model)"
proof (cases "Decode metadata")
  case (Inl err)
  with assms show ?thesis by (simp add: Create_def)
next
  case (Inr model)
  from Create_trace_cases [OF Inr, of env client] assms show ?thesis
    using Inr by auto
qed

text \<open>Create probes the identity built from the model whenever the configuration decodes.\<close>

lemma Create_probes:
  assumes "Decode metadata = Inr model"
  shows "GetCall (NewCommunicationsGatewayID (SubscriptionId metadata) (m_ResourceGroupName model) (m_Name model))
           \<in> set (snd (Create env client metadata))"
  using Create_trace_cases [OF assms, of env client] by auto

text \<open>
  C3: when Create probes an identity and the probe returns a found result, Create fails
  with the import-required error for that identity, and the probe is the only remote call
  it has made: no CreateOrUpdate (and no other mutating call) is issued.
\<close>

theorem Create_requires_import:
  assumes "GetCall gid \<in> set (snd (Create env client metadata))"
      and "found (Get client gid)"
  shows "fst (Create env client metadata) = Some (ImportAsExistsError ResourceType gid) \<and>
         snd (Create env client metadata) = [GetCall gid] \<and>
         \<not> list_ex mutating (snd (Create env client metadata))"
proof -
  from Create_GetCall_id [OF assms(1)] obtain model where
    d: "Decode metadata = Inr model" and
    g: "gid = NewCommunicationsGatewayID (SubscriptionId metadata) (m_ResourceGroupName model) (m_Name model)"
    by blast
  from assms(2) have "Create env client metadata = (Some (ImportAsExistsError ResourceType gid), [GetCall gid])"
    by (cases "Get client gid")
       (simp add: Create_def d g [symmetric] found_def ResourceRequiresImport_def)
  then show ?thesis by simp
qed

theorem Create_requires_import_witness:
  "GetCall example_id \<in> set (snd (Create example_env example_client_present (example_metadata example_model (changed_fields [])))) \<and>
   found (Get example_client_present example_id) \<and>
   fst (Create example_env example_client_present (example_metadata example_model (changed_fields [])))
     = Some (ImportAsExistsError ResourceType example_id)"
proof -
  have h1: "GetCall example_id \<in> set (snd (Create example_env example_client_present (example_metadata example_model (changed_fields []))))"
    by (simp add: Create_def Let_def example_metadata_def example_model_def example_client_present_def
          example_id_def WasNotFound_def ResourceRequiresImport_def)
  have h2: "found (Get example_client_present example_id)"
    by (simp add: found_def example_client_present_def WasNotFound_def)
  from Create_requires_import [OF h1 h2] h1 h2 show ?thesis by simp
qed

section \<open>The opaque api bridge (C4, C8)\<close>

lemma Create_properties_empty_ApiBridge:
  assumes "m_ApiBridge model = []"
  shows "\<exists>gw p. Create_properties env model = Inr gw \<and> gw_Properties gw = Some p \<and> p_ApiBridge p = Some None"
  using assms by (simp add: Create_properties_def Let_def)

lemma Create_sent:
  assumes "CreateOrUpdateCall gid sent \<in> set (snd (Create env client metadata))"
  shows "\<exists>model. Decode metadata = Inr model \<and> Create_properties env model = Inr sent"
proof (cases "Decode metadata")
  case (Inl err)
  with assms show ?thesis by (simp add: Create_def)
next
  case (Inr model)
  from Create_trace_cases [OF Inr, of env client] assms show ?thesis
    using Inr by auto
qed

lemma Update_properties_nil_Properties:
  assumes "gw_Properties fetched = None" and "hasChange ''api_bridge''"
  shows "\<exists>e. Update_properties env hasChange model fetched = Inl e"
  using assms
  by (auto simp add: Update_properties_def andThen_def with_Properties_def split: sum.splits)

lemma step_Some:
  "gw_Properties g = Some p \<Longrightarrow>
   andThen (if c then with_Properties g f else Inr g) k = k (g\<lparr>gw_Properties := Some (if c then f p else p)\<rparr>)"
  by (cases g) (simp add: andThen_def with_Properties_def)

lemma last_step_Some:
  "gw_Properties g = Some p \<Longrightarrow>
   (if c then with_Properties g f else Inr g) = Inr (g\<lparr>gw_Properties := Some (if c then f p else p)\<rparr>)"
  by (cases g) (simp add: with_Properties_def)

lemma tags_step:
  "andThen (if c then Inr (g\<lparr>gw_Tags := t\<rparr>) else Inr g) k = k (g\<lparr>gw_Tags := (if c then t else gw_Tags g)\<rparr>)"
  by (cases g) (simp add: andThen_def)

lemma Update_properties_unmarshal_error:
  assumes "hasChange ''api_bridge''" and "m_ApiBridge model \<noteq> []"
      and "Unmarshal env (m_ApiBridge model) = Inl err"
  shows "\<exists>e. Update_properties env hasChange model fetched = Inl e"
proof (cases "gw_Properties fetched")
  case None
  then show ?thesis using assms(1) by (rule Update_properties_nil_Properties)
next
  case (Some p)
  have "Update_properties env hasChange model fetched = Inl (UnmarshallingJsonValueError err)"
    using assms Some by (simp add: Update_properties_def step_Some) (simp add: andThen_def)
  then show ?thesis by blast
qed

lemma Update_properties_empty_ApiBridge:
  assumes "hasChange ''api_bridge''" and "m_ApiBridge model = []" and "gw_Properties fetched = Some p0"
  shows "\<exists>sent p. Update_properties env hasChange model fetched = Inr sent \<and>
           gw_Properties sent = Some p \<and> p_ApiBridge p = None"
  using assms
  by (simp add: Update_properties_def step_Some with_Properties_Some andThen_def tags_step last_step_Some)

text \<open>
  C4: with an empty \<open>api_bridge\<close> string, the resource that Create builds, and any resource
  that Create sends to CreateOrUpdate, has ApiBridge set to a non-nil pointer whose pointee
  is nil; with \<open>api_bridge\<close> marked changed, the resource that Update builds from a fetched
  resource with properties, and any resource that Update sends, has ApiBridge set to the
  nil pointer.
\<close>

theorem ApiBridge_empty_asymmetry:
  assumes "Decode metadata = Inr model" and "m_ApiBridge model = []"
  shows "(\<exists>gw p. Create_properties env model = Inr gw \<and> gw_Properties gw = Some p \<and>
                 p_ApiBridge p = Some None) \<and>
         (\<forall>gid sent. CreateOrUpdateCall gid sent \<in> set (snd (Create env client metadata)) \<longrightarrow>
            (\<exists>p. gw_Properties sent = Some p \<and> p_ApiBridge p = Some None)) \<and>
         (HasChange metadata ''api_bridge'' \<longrightarrow>
            (\<forall>fetched p0. gw_Properties fetched = Some p0 \<longrightarrow>
               (\<exists>sent p. Update_properties env (HasChange metadata) model fetched = Inr sent \<and>
                         gw_Properties sent = Some p \<and> p_ApiBridge p = None)) \<and>
            (\<forall>gid sent. CreateOrUpdateCall gid sent \<in> set (snd (Update env client metadata)) \<longrightarrow>
               (\<exists>p. gw_Properties sent = Some p \<and> p_ApiBridge p = None)))"
proof -
  have c1: "\<exists>gw p. Create_properties env model = Inr gw \<and> gw_Properties gw = Some p \<and>
                 p_ApiBridge p = Some None"
    using assms(2) by (rule Create_properties_empty_ApiBridge)
  have c2: "\<exists>p. gw_Properties sent = Some p \<and> p_ApiBridge p = Some None"
    if "CreateOrUpdateCall gid sent \<in> set (snd (Create env client metadata))" for gid sent
    using Create_sent [OF that] c1 assms(1) by auto
  have u1: "\<exists>sent p. Update_properties env (HasChange metadata) model fetched = Inr sent \<and>
                         gw_Properties sent = Some p \<and> p_ApiBridge p = None"
    if "HasChange metadata ''api_bridge''" and "gw_Properties fetched = Some p0" for fetched p0
    using that(1) assms(2) that(2) by (rule Update_properties_empty_ApiBridge)
  have u2: "\<exists>p. gw_Properties sent = Some p \<and> p_ApiBridge p = None"
    if h: "HasChange metadata ''api_bridge''"
      and s: "CreateOrUpdateCall gid sent \<in> set (snd (Update env client metadata))" for gid sent
  proof -
    from Update_sent [OF s] assms(1) obtain fetched where
      u: "Update_properties env (HasChange metadata) model fetched = Inr sent"
      by auto
    show ?thesis
    proof (cases "gw_Properties fetched")
      case None
      from Update_properties_nil_Properties [of fetched "HasChange metadata" env model, OF None h] u
      show ?thesis by simp
    next
      case (Some p0)
      from u1 [OF h Some] u show ?thesis by simp
    qed
  qed
  show ?thesis using c1 c2 u1 u2 by blast
qed

theorem ApiBridge_empty_asymmetry_witness:
  "Decode (example_metadata example_model (\<lambda>k. k = ''api_bridge'')) = Inr example_model \<and>
   m_ApiBridge example_model = [] \<and>
   HasChange (example_metadata example_model (\<lambda>k. k = ''api_bridge'')) ''api_bridge'' \<and>
   (\<exists>sent p. CreateOrUpdateCall example_id sent
        \<in> set (snd (Create example_env example_client_absent (example_metadata example_model (\<lambda>k. k = ''api_bridge'')))) \<and>
      gw_Properties sent = Some p \<and> p_ApiBridge p = Some None) \<and>
   (\<exists>sent p. CreateOrUpdateCall example_id sent
        \<in> set (snd (Update example_env example_client_present (example_metadata example_model (\<lambda>k. k = ''api_bridge'')))) \<and>
      gw_Properties sent = Some p \<and> p_ApiBridge p = None \<and>
      p_ApiBridge example_properties = Some (Some ''{}''))"
proof -
  let ?md = "example_metadata example_model (\<lambda>k. k = ''api_bridge'')"
  have h1: "Decode ?md = Inr example_model"
    by (simp add: example_metadata_def)
  have h2: "m_ApiBridge example_model = []"
    by (simp add: example_model_def)
  have h3: "HasChange ?md ''api_bridge''"
    by (simp add: example_metadata_def)
  have c: "\<exists>sent. CreateOrUpdateCall example_id sent \<in> set (snd (Create example_env example_client_absent ?md))"
    by (simp add: Create_def Let_def Create_properties_def example_metadata_def example_model_def
          example_client_absent_def example_id_def WasNotFound_def)
  have u: "\<exists>sent. CreateOrUpdateCall example_id sent \<in> set (snd (Update example_env example_client_present ?md))"
    by (simp add: Update_def Update_properties_def andThen_def with_Properties_def example_env_def
          example_metadata_def example_model_def example_client_present_def example_gateway_def)
  have e: "p_ApiBridge example_properties = Some (Some ''{}'')"
    by (simp add: example_properties_def)
  from ApiBridge_empty_asymmetry [OF h1 h2, of example_env example_client_absent]
       ApiBridge_empty_asymmetry [OF h1 h2, of example_env example_client_present]
       h1 h2 h3 c u e
  show ?thesis by blast
qed

text \<open>
  C8, as the claim states it, fails for Update: when \<open>api_bridge\<close> is not marked changed
  (here only \<open>codecs\<close> is), Update does not decode the api bridge at all; with a string
  that does not parse it returns no error and issues CreateOrUpdate.
\<close>

theorem Update_unparsed_ApiBridge_counterexample:
  "m_ApiBridge (example_model\<lparr>m_ApiBridge := ''{''\<rparr>) \<noteq> [] \<and>
   Unmarshal example_env (m_ApiBridge (example_model\<lparr>m_ApiBridge := ''{''\<rparr>)) = Inl ''invalid character'' \<and>
   Update example_env example_client_present
       (example_metadata (example_model\<lparr>m_ApiBridge := ''{''\<rparr>) (changed_fields [''codecs'']))
     = (None, [GetCall example_id,
               CreateOrUpdateCall example_id
                 (example_gateway\<lparr>gw_Properties := Some (example_properties\<lparr>p_Codecs := Some [TeamsCodecs ''PCMA'']\<rparr>)\<rparr>)]) \<and>
   mutating (CreateOrUpdateCall example_id
                 (example_gateway\<lparr>gw_Properties := Some (example_properties\<lparr>p_Codecs := Some [TeamsCodecs ''PCMA'']\<rparr>)\<rparr>))"
  by (simp add: Update_def changed_fields_codecs Update_properties_only_codecs with_Properties_def
        example_env_def example_metadata_def example_model_def example_client_present_def
        example_gateway_def)

lemma Update_properties_unmarshal_error_returned:
  assumes "hasChange ''api_bridge''" and "m_ApiBridge model \<noteq> []"
      and "Unmarshal env (m_ApiBridge model) = Inl err"
      and "gw_Properties fetched = Some p"
  shows "Update_properties env hasChange model fetched = Inl (UnmarshallingJsonValueError err)"
  using assms by (simp add: Update_properties_def step_Some) (simp add: andThen_def)

text \<open>
  Whatever the fetched resource, a failed decoding of a changed api bridge keeps Update
  from any mutating call (with nil properties the outcome may be the panic of an earlier
  assignment).
\<close>

lemma Update_parse_failure_no_mutating_call:
  assumes "Decode metadata = Inr model" and "m_ApiBridge model \<noteq> []"
      and "Unmarshal env (m_ApiBridge model) = Inl err"
      and "HasChange metadata ''api_bridge''"
  shows "fst (Update env client metadata) \<noteq> None \<and>
         \<not> list_ex mutating (snd (Update env client metadata))"
proof -
  have "Update_properties env (HasChange metadata) model fetched \<noteq> Inr sent" for fetched sent
    using Update_properties_unmarshal_error
            [of "HasChange metadata" model env err fetched, OF assms(4) assms(2,3)]
    by auto
  then show ?thesis
    by (auto simp add: Update_def assms(1) split: sum.splits prod.splits option.splits)
qed

text \<open>Without the change mark Update never consults the JSON decoder.\<close>

lemma expandServiceRegionPropertiesModel_Unmarshal:
  "expandServiceRegionPropertiesModel (env\<lparr>Unmarshal := u\<rparr>) inputList =
   expandServiceRegionPropertiesModel env inputList"
  by (simp add: expandServiceRegionPropertiesModel_def)

lemma Update_properties_no_parse:
  assumes "\<not> hasChange ''api_bridge''"
  shows "Update_properties (env\<lparr>Unmarshal := u\<rparr>) hasChange model fetched =
         Update_properties env hasChange model fetched"
  using assms
  by (simp add: Update_properties_def expandServiceRegionPropertiesModel_Unmarshal cong: if_cong)

lemma Update_no_parse:
  assumes "\<not> HasChange metadata ''api_bridge''"
  shows "Update (env\<lparr>Unmarshal := u\<rparr>) client metadata = Update env client metadata"
  using assms
  by (simp add: Update_def Update_properties_no_parse
        cong: sum.case_cong option.case_cong prod.case_cong)

text \<open>
  C8, amended: for every non-empty \<open>api_bridge\<close> string that fails to parse as JSON,
  Create returns an error without issuing any mutating remote call; Update does so
  whenever \<open>api_bridge\<close> is marked changed and the resource it fetches carries its
  properties; when \<open>api_bridge\<close> is not marked changed, Update does not parse it (its
  outcome is the same whatever the JSON decoder would answer).
\<close>

theorem ApiBridge_parse_failure_no_mutation:
  assumes "Decode metadata = Inr model" and "m_ApiBridge model \<noteq> []"
      and "Unmarshal env (m_ApiBridge model) = Inl err"
  shows "(\<exists>e. fst (Create env client metadata) = Some e \<and> \<not> is_panic e) \<and>
         \<not> list_ex mutating (snd (Create env client metadata)) \<and>
         (HasChange metadata ''api_bridge'' \<and>
          (\<forall>gid fetched.
              ParseCommunicationsGatewayID env (ResourceData_Id metadata) = Inr gid \<longrightarrow>
              Model (fst (Get client gid)) = Some fetched \<longrightarrow> gw_Properties fetched \<noteq> None) \<longrightarrow>
            (\<exists>e. fst (Update env client metadata) = Some e \<and> \<not> is_panic e) \<and>
            \<not> list_ex mutating (snd (Update env client metadata))) \<and>
         (\<not> HasChange metadata ''api_bridge'' \<longrightarrow>
            (\<forall>u. Update (env\<lparr>Unmarshal := u\<rparr>) client metadata = Update env client metadata))"
proof -
  have cp: "Create_properties env model = Inl (UnmarshallingValueError err)"
    using assms(2,3) by (simp add: Create_properties_def)
  have c: "(\<exists>e. fst (Create env client metadata) = Some e \<and> \<not> is_panic e) \<and>
         \<not> list_ex mutating (snd (Create env client metadata))"
    by (simp add: Create_def Let_def assms(1) cp ResourceRequiresImport_def split: prod.splits)
  have u: "(\<exists>e. fst (Update env client metadata) = Some e \<and> \<not> is_panic e) \<and>
            \<not> list_ex mutating (snd (Update env client metadata))"
    if h: "HasChange metadata ''api_bridge''"
      and pp: "\<forall>gid fetched.
              ParseCommunicationsGatewayID env (ResourceData_Id metadata) = Inr gid \<longrightarrow>
              Model (fst (Get client gid)) = Some fetched \<longrightarrow> gw_Properties fetched \<noteq> None"
  proof (cases "ParseCommunicationsGatewayID env (ResourceData_Id metadata)")
    case (Inl e)
    then show ?thesis by (simp add: Update_def)
  next
    case (Inr gid)
    obtain resp gerr where g: "Get client gid = (resp, gerr)"
      by (cases "Get client gid")
    show ?thesis
    proof (cases gerr)
      case (Some e)
      then show ?thesis by (simp add: Update_def Inr assms(1) g)
    next
      case None
      note noerr = this
      show ?thesis
      proof (cases "Model resp")
        case None
        then show ?thesis by (simp add: Update_def Inr assms(1) g noerr)
      next
        case (Some fetched)
        from pp Inr g Some obtain p where p: "gw_Properties fetched = Some p"
          by auto
        have "Update_properties env (HasChange metadata) model fetched
                = Inl (UnmarshallingJsonValueError err)"
          using h assms(2,3) p by (rule Update_properties_unmarshal_error_returned)
        then show ?thesis by (simp add: Update_def Inr assms(1) g noerr Some)
      qed
    qed
  qed
  have n: "Update (env\<lparr>Unmarshal := u\<rparr>) client metadata = Update env client metadata"
    if "\<not> HasChange metadata ''api_bridge''" for u
    using that by (rule Update_no_parse)
  show ?thesis using c u n by blast
qed

theorem ApiBridge_parse_failure_no_mutation_witness:
  "Decode (example_metadata (example_model\<lparr>m_ApiBridge := ''{''\<rparr>) (changed_fields [''api_bridge'']))
     = Inr (example_model\<lparr>m_ApiBridge := ''{''\<rparr>) \<and>
   m_ApiBridge (example_model\<lparr>m_ApiBridge := ''{''\<rparr>) \<noteq> [] \<and>
   Unmarshal example_env (m_ApiBridge (example_model\<lparr>m_ApiBridge := ''{''\<rparr>)) = Inl ''invalid character'' \<and>
   HasChange (example_metadata (example_model\<lparr>m_ApiBridge := ''{''\<rparr>) (changed_fields [''api_bridge''])) ''api_bridge'' \<and>
   gw_Properties example_gateway \<noteq> None \<and>
   (\<exists>e. fst (Create example_env example_client_absent
          (example_metadata (example_model\<lparr>m_ApiBridge := ''{''\<rparr>) (changed_fields [''api_bridge'']))) = Some e \<and>
        \<not> is_panic e) \<and>
   \<not> list_ex mutating (snd (Create example_env example_client_absent
          (example_metadata (example_model\<lparr>m_ApiBridge := ''{''\<rparr>) (changed_fields [''api_bridge''])))) \<and>
   (\<exists>e. fst (Update example_env example_client_present
          (example_metadata (example_model\<lparr>m_ApiBridge := ''{''\<rparr>) (changed_fields [''api_bridge'']))) = Some e \<and>
        \<not> is_panic e) \<and>
   \<not> list_ex mutating (snd (Update example_env example_client_present
          (example_metadata (example_model\<lparr>m_ApiBridge := ''{''\<rparr>) (changed_fields [''api_bridge''])))) \<and>
   \<not> HasChange (example_metadata (example_model\<lparr>m_ApiBridge := ''{''\<rparr>) (changed_fields [''codecs''])) ''api_bridge'' \<and>
   Update (example_env\<lparr>Unmarshal := (\<lambda>text. Inr None)\<rparr>) example_client_present
       (example_metadata (example_model\<lparr>m_ApiBridge := ''{''\<rparr>) (changed_fields [''codecs'']))
     = Update example_env example_client_present
       (example_metadata (example_model\<lparr>m_ApiBridge := ''{''\<rparr>) (changed_fields [''codecs'']))"
proof -
  let ?m = "example_model\<lparr>m_ApiBridge := ''{''\<rparr>"
  let ?md = "example_metadata ?m (changed_fields [''api_bridge''])"
  let ?md' = "example_metadata ?m (changed_fields [''codecs''])"
  have h1: "Decode ?md = Inr ?m" and h1': "Decode ?md' = Inr ?m"
    by (simp_all add: example_metadata_def)
  have h2: "m_ApiBridge ?m \<noteq> []"
    by simp
  have h3: "Unmarshal example_env (m_ApiBridge ?m) = Inl ''invalid character''"
    by (simp add: example_env_def)
  have h4: "HasChange ?md ''api_bridge''"
    by (simp add: example_metadata_def changed_fields_def)
  have h5: "\<forall>gid fetched.
              ParseCommunicationsGatewayID example_env (ResourceData_Id ?md) = Inr gid \<longrightarrow>
              Model (fst (Get example_client_present gid)) = Some fetched \<longrightarrow>
              gw_Properties fetched \<noteq> None"
    by (auto simp add: example_client_present_def example_gateway_def)
  have h6: "gw_Properties example_gateway \<noteq> None"
    by (simp add: example_gateway_def)
  have h7: "\<not> HasChange ?md' ''api_bridge''"
    by (simp add: example_metadata_def changed_fields_def)
  from ApiBridge_parse_failure_no_mutation [OF h1 h2 h3, of example_client_absent]
       ApiBridge_parse_failure_no_mutation [OF h1 h2 h3, of example_client_present]
       ApiBridge_parse_failure_no_mutation [OF h1' h2 h3, of example_client_present]
       h1 h2 h3 h4 h5 h6 h7
  show ?thesis by blast
qed

section \<open>Round trip (C5)\<close>








section \<open>Optional address lists (C6)\<close>

text \<open>
  C6: Expand keeps the number and order of the service-location entries, and in every
  entry maps each of the three optional address lists on its own: a nil slice becomes a
  nil pointer, an empty non-nil slice a non-nil pointer to an empty collection, and any
  non-nil slice a pointer to that slice; the operator addresses are passed through as the
  slice itself.
\<close>

theorem expandServiceRegionPropertiesModel_address_lists:
  "len (expandServiceRegionPropertiesModel env inputList) = len inputList \<and>
   (\<forall>i < len inputList.
      let v = range_slice inputList ! i;
          out = sr_PrimaryRegionProperties (range_slice (expandServiceRegionPropertiesModel env inputList) ! i)
      in (sl_AllowedMediaSourceAddressPrefixes v = None \<longrightarrow> pr_AllowedMediaSourceAddressPrefixes out = None) \<and>
         (sl_AllowedMediaSourceAddressPrefixes v = Some [] \<longrightarrow>
            pr_AllowedMediaSourceAddressPrefixes out = Some (Some [])) \<and>
         (sl_AllowedMediaSourceAddressPrefixes v \<noteq> None \<longrightarrow>
            pr_AllowedMediaSourceAddressPrefixes out = Some (sl_AllowedMediaSourceAddressPrefixes v)) \<and>
         (sl_AllowedSignalingSourceAddressPrefixes v = None \<longrightarrow>
            pr_AllowedSignalingSourceAddressPrefixes out = None) \<and>
         (sl_AllowedSignalingSourceAddressPrefixes v = Some [] \<longrightarrow>
            pr_AllowedSignalingSourceAddressPrefixes out = Some (Some [])) \<and>
         (sl_AllowedSignalingSourceAddressPrefixes v \<noteq> None \<longrightarrow>
            pr_AllowedSignalingSourceAddressPrefixes out = Some (sl_AllowedSignalingSourceAddressPrefixes v)) \<and>
         (sl_EsrpAddresses v = None \<longrightarrow> pr_EsrpAddresses out = None) \<and>
         (sl_EsrpAddresses v = Some [] \<longrightarrow> pr_EsrpAddresses out = Some (Some [])) \<and>
         (sl_EsrpAddresses v \<noteq> None \<longrightarrow> pr_EsrpAddresses out = Some (sl_EsrpAddresses v)) \<and>
         pr_OperatorAddresses out = sl_OperatorAddresses v)"
  by (simp add: expandServiceRegionPropertiesModel_eq len_range_slice StringSlice_def Let_def)

theorem expandServiceRegionPropertiesModel_address_lists_witness:
  "0 < len (Some [example_location]) \<and>
   sl_AllowedMediaSourceAddressPrefixes example_location = None \<and>
   sl_AllowedSignalingSourceAddressPrefixes example_location = Some [] \<and>
   sl_EsrpAddresses example_location = Some [] \<and>
   pr_AllowedMediaSourceAddressPrefixes (sr_PrimaryRegionProperties
       (range_slice (expandServiceRegionPropertiesModel example_env (Some [example_location])) ! 0)) = None \<and>
   pr_AllowedSignalingSourceAddressPrefixes (sr_PrimaryRegionProperties
       (range_slice (expandServiceRegionPropertiesModel example_env (Some [example_location])) ! 0)) = Some (Some []) \<and>
   pr_EsrpAddresses (sr_PrimaryRegionProperties
       (range_slice (expandServiceRegionPropertiesModel example_env (Some [example_location])) ! 0)) = Some (Some []) \<and>
   pr_OperatorAddresses (sr_PrimaryRegionProperties
       (range_slice (expandServiceRegionPropertiesModel example_env (Some [example_location])) ! 0)) = Some [''10.0.0.1'']"
  using expandServiceRegionPropertiesModel_address_lists [of example_env "Some [example_location]"]
  by (simp add: Let_def example_location_def)

section \<open>Read tolerance (C7)\<close>

lemma Read_GetCall_id:
  assumes "GetCall gid \<in> set (snd (Read env client metadata))"
  shows "ParseCommunicationsGatewayID env (ResourceData_Id metadata) = Inr gid"
  using assms
  by (auto simp add: Read_def MarkAsGone_def split: sum.splits prod.splits option.splits if_splits)

text \<open>Read fetches the tracked identity whenever its ID parses.\<close>

lemma Read_probes:
  assumes "ParseCommunicationsGatewayID env (ResourceData_Id metadata) = Inr gid"
  shows "GetCall gid \<in> set (snd (Read env client metadata))"
  using assms
  by (auto simp add: Read_def MarkAsGone_def split: sum.splits prod.splits option.splits)

text \<open>
  C7: when Read fetches an identity and Get fails with not-found, Read marks the tracked
  instance as gone and returns no error; when Get fails in any other way, Read returns the
  retrieving error and marks nothing.
\<close>

theorem Read_not_found_is_gone:
  assumes "GetCall gid \<in> set (snd (Read env client metadata))"
  shows "(not_found (Get client gid) \<longrightarrow>
            Read env client metadata = (None, [GetCall gid, MarkedAsGone gid])) \<and>
         (snd (Get client gid) \<noteq> None \<and> \<not> not_found (Get client gid) \<longrightarrow>
            (\<exists>err. snd (Get client gid) = Some err \<and>
                   Read env client metadata = (Some (RetrievingError gid err), [GetCall gid])))"
proof -
  have p: "ParseCommunicationsGatewayID env (ResourceData_Id metadata) = Inr gid"
    using assms by (rule Read_GetCall_id)
  show ?thesis
    by (cases "Get client gid") (auto simp add: Read_def p not_found_def MarkAsGone_def)
qed

theorem Read_not_found_is_gone_witness:
  "GetCall example_id \<in> set (snd (Read example_env example_client_absent (example_metadata example_model (changed_fields [])))) \<and>
   not_found (Get example_client_absent example_id) \<and>
   Read example_env example_client_absent (example_metadata example_model (changed_fields []))
     = (None, [GetCall example_id, MarkedAsGone example_id]) \<and>
   GetCall example_id \<in> set (snd (Read example_env example_client_failing (example_metadata example_model (changed_fields [])))) \<and>
   snd (Get example_client_failing example_id) \<noteq> None \<and> \<not> not_found (Get example_client_failing example_id) \<and>
   Read example_env example_client_failing (example_metadata example_model (changed_fields []))
     = (Some (RetrievingError example_id ''internal error''), [GetCall example_id])"
proof -
  let ?md = "example_metadata example_model (changed_fields [])"
  have h1: "GetCall example_id \<in> set (snd (Read example_env example_client_absent ?md))"
    by (simp add: Read_def example_env_def example_metadata_def example_client_absent_def
          WasNotFound_def MarkAsGone_def)
  have h2: "not_found (Get example_client_absent example_id)"
    by (simp add: not_found_def example_client_absent_def WasNotFound_def)
  have h3: "GetCall example_id \<in> set (snd (Read example_env example_client_failing ?md))"
    by (simp add: Read_def example_env_def example_metadata_def example_client_failing_def WasNotFound_def)
  have h4: "snd (Get example_client_failing example_id) = Some ''internal error'' \<and>
            \<not> not_found (Get example_client_failing example_id)"
    by (simp add: not_found_def example_client_failing_def WasNotFound_def)
  from Read_not_found_is_gone [OF h1] Read_not_found_is_gone [OF h3] h1 h2 h3 h4
  show ?thesis by auto
qed

section \<open>Platforms (C9, C10)\<close>

text \<open>
  C9: Expand of the platforms list is nil when the input is nil or empty, is otherwise the
  input converted element by element into the remote enumeration type, and is never a
  non-nil empty list.
\<close>

theorem expandCommunicationsPlatformModel_nil_or_elementwise:
  "(len input = 0 \<longrightarrow> expandCommunicationsPlatformModel input = None) \<and>
   (len input \<noteq> 0 \<longrightarrow>
      expandCommunicationsPlatformModel input = Some (map CommunicationsPlatform (range_slice input))) \<and>
   expandCommunicationsPlatformModel input \<noteq> Some []"
  by (cases input) (auto simp add: expandCommunicationsPlatformModel_eq)

theorem expandCommunicationsPlatformModel_nil_or_elementwise_witness:
  "len (None :: string slice) = 0 \<and> expandCommunicationsPlatformModel None = None \<and>
   len (Some [] :: string slice) = 0 \<and> expandCommunicationsPlatformModel (Some []) = None \<and>
   len (Some [''OperatorConnect'', ''TeamsPhoneMobile'']) \<noteq> 0 \<and>
   expandCommunicationsPlatformModel (Some [''OperatorConnect'', ''TeamsPhoneMobile''])
     = Some [CommunicationsPlatform ''OperatorConnect'', CommunicationsPlatform ''TeamsPhoneMobile'']"
  using expandCommunicationsPlatformModel_nil_or_elementwise [of None]
        expandCommunicationsPlatformModel_nil_or_elementwise [of "Some []"]
        expandCommunicationsPlatformModel_nil_or_elementwise [of "Some [''OperatorConnect'', ''TeamsPhoneMobile'']"]
  by simp

text \<open>
  C10: Flatten of a nil or empty remote platforms collection is nil, never an empty list
  (a non-empty one is converted element by element), while Flatten of a nil pointer to the
  remote service locations is a non-nil empty list.
\<close>

theorem flatten_absence_asymmetry:
  "(len input = 0 \<longrightarrow> flattenCommunicationsPlatformModel input = None) \<and>
   (len input \<noteq> 0 \<longrightarrow>
      flattenCommunicationsPlatformModel input = Some (map string_of_CommunicationsPlatform (range_slice input))) \<and>
   flattenCommunicationsPlatformModel input \<noteq> Some [] \<and>
   flattenServiceRegionPropertiesModel env None = Some [] \<and>
   flattenServiceRegionPropertiesModel env None \<noteq> None"
  by (cases input)
     (auto simp add: flattenCommunicationsPlatformModel_eq flattenServiceRegionPropertiesModel_def make0_def)

theorem flatten_absence_asymmetry_witness:
  "len (None :: CommunicationsPlatform slice) = 0 \<and> flattenCommunicationsPlatformModel None = None \<and>
   len (Some [] :: CommunicationsPlatform slice) = 0 \<and> flattenCommunicationsPlatformModel (Some []) = None \<and>
   len (Some [CommunicationsPlatform ''OperatorConnect'']) \<noteq> 0 \<and>
   flattenCommunicationsPlatformModel (Some [CommunicationsPlatform ''OperatorConnect'']) = Some [''OperatorConnect''] \<and>
   flattenServiceRegionPropertiesModel example_env None = Some []"
  using flatten_absence_asymmetry [of None example_env]
        flatten_absence_asymmetry [of "Some []" example_env]
        flatten_absence_asymmetry [of "Some [CommunicationsPlatform ''OperatorConnect'']" example_env]
  by simp

end
